theory Spec2Isabelle
  imports
    Complex_Main
    "HOL-Library.Char_ord"
    "HOL-Library.List_Lexorder"
    "HOL-Library.Multiset"
begin

section \<open>Values and text\<close>

text \<open>
  Python \<open>int\<close> is \<open>int\<close>. A Python \<open>float\<close> is stored and handed back unchanged by
  every operation below, so it is modelled by \<open>real\<close> (no floating-point rounding is
  represented). SQLite \<open>TEXT\<close> is \<open>string\<close>; SQLite compares two \<open>TEXT\<close> values byte by
  byte, which is the lexicographic order on \<open>char list\<close>.
\<close>

text \<open>\<open>str(n)\<close> for a Python integer: decimal digits, a leading minus sign when negative.\<close>

fun digits :: "nat \<Rightarrow> string" where
  "digits n =
     (if n < 10 then [''0123456789'' ! n]
      else digits (n div 10) @ [''0123456789'' ! (n mod 10)])"

definition str_int :: "int \<Rightarrow> string" where
  "str_int i = (if i < 0 then CHR ''-'' # digits (nat (- i)) else digits (nat i))"

text \<open>The modifier the window queries hand to SQLite: \<open>f'-{hours} hours'\<close>.\<close>

definition hours_modifier :: "int \<Rightarrow> string" where
  "hours_modifier hours = ''-'' @ str_int hours @ '' hours''"

section \<open>The three relations (class \<open>OllamaMetricsDB\<close>)\<close>

text \<open>
  A stored row is its \<open>id\<close> (\<open>INTEGER PRIMARY KEY AUTOINCREMENT\<close>) paired with its other
  columns. A table is the list of its rows in insertion order.
\<close>

record system_metrics_columns =
  c_timestamp :: string
  c_server_status :: int
  c_cpu_percent :: real
  c_memory_percent :: real
  c_disk_percent :: real
  c_network_bytes_sent :: int
  c_network_bytes_recv :: int
  ollama_cpu_percent :: real
  ollama_memory_percent :: real
  ollama_connections :: int

text \<open>
  \<open>request_log\<close> is both the \<open>log_data\<close> dictionary handed to \<open>save_request_log\<close> and the
  columns of a \<open>request_logs\<close> row: the function copies the eight entries one to one.
  \<open>response_time\<close> may be \<open>None\<close> (SQL \<open>NULL\<close>); \<open>api_request_stats\<close> tests for it.
\<close>

record request_log =
  r_timestamp :: string
  client_ip :: string
  model_name :: string
  input_tokens :: int
  output_tokens :: int
  response_time :: "real option"
  status_code :: int
  endpoint :: string

record models_columns =
  m_timestamp :: string
  m_model_name :: string
  model_size :: string
  parameter_size :: string
  modified_at :: string
  model_family :: string

record database =
  system_metrics :: "(nat \<times> system_metrics_columns) list"
  request_logs :: "(nat \<times> request_log) list"
  models :: "(nat \<times> models_columns) list"

text \<open>
  \<open>AUTOINCREMENT\<close>: the new id is one more than the largest id of the table (rows are
  never deleted), 1 in an empty table.
\<close>

definition next_id :: "(nat \<times> 'a) list \<Rightarrow> nat" where
  "next_id rows = Suc (fold max (map fst rows) 0)"

text \<open>
  \<open>_create_tables\<close>: every statement is \<open>CREATE ... IF NOT EXISTS\<close>. A missing table is
  the empty list here, so creating it changes nothing, and existing rows stay.
\<close>

definition create_tables :: "database \<Rightarrow> database" where
  "create_tables db = db"

definition empty_db :: database where
  "empty_db = \<lparr>system_metrics = [], request_logs = [], models = []\<rparr>"

subsection \<open>\<open>save_system_metrics\<close>\<close>

text \<open>
  The \<open>metrics\<close> dictionary. \<open>ollama_process\<close> is a dictionary read with
  \<open>.get(key, 0)\<close>, so each of its keys may be absent; the empty dictionary \<open>{}\<close> has
  all four absent.
\<close>

record system_info =
  cpu_percent :: real
  memory_percent :: real
  disk_percent :: real
  network_bytes_sent :: int
  network_bytes_recv :: int

record process_info =
  p_pid :: "int option"
  p_cpu_percent :: "real option"
  p_memory_percent :: "real option"
  p_connections :: "int option"

definition empty_process :: process_info where
  "empty_process =
     \<lparr>p_pid = None, p_cpu_percent = None, p_memory_percent = None, p_connections = None\<rparr>"

record metrics =
  timestamp :: string
  server_status :: bool
  system :: system_info
  ollama_process :: process_info

text \<open>\<open>d.get(key, default)\<close> on an optional entry.\<close>

definition get_default :: "'a option \<Rightarrow> 'a \<Rightarrow> 'a" where
  "get_default v d = (case v of None \<Rightarrow> d | Some x \<Rightarrow> x)"

text \<open>The ten values of the \<open>INSERT INTO system_metrics\<close> statement, in its order.\<close>

definition system_metrics_values :: "metrics \<Rightarrow> system_metrics_columns" where
  "system_metrics_values m =
     \<lparr>c_timestamp = timestamp m,
      c_server_status = (if server_status m then 1 else 0),
      c_cpu_percent = cpu_percent (system m),
      c_memory_percent = memory_percent (system m),
      c_disk_percent = disk_percent (system m),
      c_network_bytes_sent = network_bytes_sent (system m),
      c_network_bytes_recv = network_bytes_recv (system m),
      ollama_cpu_percent = get_default (p_cpu_percent (ollama_process m)) 0,
      ollama_memory_percent = get_default (p_memory_percent (ollama_process m)) 0,
      ollama_connections = get_default (p_connections (ollama_process m)) 0\<rparr>"

definition save_system_metrics :: "metrics \<Rightarrow> database \<Rightarrow> database" where
  "save_system_metrics m db =
     db\<lparr>system_metrics :=
          system_metrics db @ [(next_id (system_metrics db), system_metrics_values m)]\<rparr>"

subsection \<open>\<open>save_request_log\<close>\<close>


subsection \<open>\<open>save_models\<close>\<close>

text \<open>
  One entry of the \<open>models\<close> list: a dictionary read with \<open>.get\<close>, so every key may
  be absent, and so may the nested \<open>details\<close> dictionary and its keys.
\<close>

record model_details =
  d_parameter_size :: "string option"
  d_family :: "string option"

record model_entry =
  e_name :: "string option"
  e_size :: "int option"
  e_modified_at :: "string option"
  e_details :: "model_details option"

definition models_values :: "string \<Rightarrow> model_entry \<Rightarrow> models_columns" where
  "models_values ts model =
     (let details = get_default (e_details model) \<lparr>d_parameter_size = None, d_family = None\<rparr>
      in \<lparr>m_timestamp = ts,
          m_model_name = get_default (e_name model) '''',
          model_size = str_int (get_default (e_size model) 0),
          parameter_size = get_default (d_parameter_size details) '''',
          modified_at = get_default (e_modified_at model) '''',
          model_family = get_default (d_family details) ''''\<rparr>)"

text \<open>The \<open>for model in models\<close> loop: one \<open>INSERT\<close> per entry, in list order.\<close>

fun insert_models :: "string \<Rightarrow> model_entry list \<Rightarrow> (nat \<times> models_columns) list
    \<Rightarrow> (nat \<times> models_columns) list" where
  "insert_models ts [] rows = rows"
| "insert_models ts (model # rest) rows =
     insert_models ts rest (rows @ [(next_id rows, models_values ts model)])"

definition save_models :: "string \<Rightarrow> model_entry list \<Rightarrow> database \<Rightarrow> database" where
  "save_models ts ms db = db\<lparr>models := insert_models ts ms (models db)\<rparr>"

subsection \<open>The window queries\<close>

text \<open>
  \<open>datetime_now\<close> stands for SQLite's \<open>datetime('now', modifier)\<close> at the instant of the
  query: the text \<open>YYYY-MM-DD HH:MM:SS\<close> of the shifted UTC time, or \<open>NULL\<close> (\<open>None\<close>)
  when SQLite rejects the modifier or the date leaves its range. \<open>timestamp > NULL\<close>
  is true of no row. \<open>WHERE timestamp > cutoff\<close> compares text.

  \<open>ORDER BY timestamp\<close> leaves the order of rows with equal timestamps open; the model
  keeps them in insertion order going up and in reverse insertion order going down,
  as a scan of the timestamp index yields them.
\<close>

definition get_recent_system_metrics ::
    "(string \<Rightarrow> string option) \<Rightarrow> int \<Rightarrow> database \<Rightarrow> (nat \<times> system_metrics_columns) list" where
  "get_recent_system_metrics datetime_now hours db =
     (case datetime_now (hours_modifier hours) of
        None \<Rightarrow> []
      | Some cutoff \<Rightarrow>
          sort_key (\<lambda>r. c_timestamp (snd r))
            (filter (\<lambda>r. cutoff < c_timestamp (snd r)) (system_metrics db)))"

definition get_recent_requests ::
    "(string \<Rightarrow> string option) \<Rightarrow> int \<Rightarrow> database \<Rightarrow> (nat \<times> request_log) list" where
  "get_recent_requests datetime_now hours db =
     (case datetime_now (hours_modifier hours) of
        None \<Rightarrow> []
      | Some cutoff \<Rightarrow>
          rev (sort_key (\<lambda>r. r_timestamp (snd r))
            (filter (\<lambda>r. cutoff < r_timestamp (snd r)) (request_logs db))))"

subsection \<open>\<open>get_latest_models\<close>\<close>

text \<open>SQL \<open>MAX\<close> over a column: \<open>NULL\<close> on no rows.\<close>

fun sql_max :: "string list \<Rightarrow> string option" where
  "sql_max [] = None"
| "sql_max (x # xs) = Some (fold max xs x)"

definition get_latest_models :: "database \<Rightarrow> (nat \<times> models_columns) list" where
  "get_latest_models db =
     (case sql_max (map (\<lambda>r. m_timestamp (snd r)) (models db)) of
        None \<Rightarrow> []
      | Some t \<Rightarrow> filter (\<lambda>r. m_timestamp (snd r) = t) (models db))"

section \<open>Calls to the upstream server\<close>

text \<open>
  What the code hands to \<open>requests.get/post/put/delete\<close>: the URL and the keyword
  arguments. A keyword the call does not pass is \<open>None\<close>; \<open>requests\<close> waits without
  limit for an answer when no \<open>timeout\<close> is passed.
\<close>

datatype json =
    JNull
  | JBool bool
  | JInt int
  | JStr string
  | JArr "json list"
  | JObj "(string \<times> json) list"

record upstream_call =
  uc_method :: string
  uc_url :: string
  uc_headers :: "(string \<times> string) list option"
  uc_params :: "(string \<times> string) list option"
  uc_json :: "json option"
  uc_data :: "string option"
  uc_timeout :: "nat option"

text \<open>
  The upstream's answer as the code reads it: \<open>status_code\<close>, \<open>content\<close>,
  \<open>raw.headers.items()\<close>, and \<open>json()\<close>. \<open>resp_json\<close> is \<open>None\<close> when \<open>json()\<close> raises
  (the body does not decode) or the body is not an object; otherwise it lists the
  integer-valued entries of the object, which are the only ones the code reads.
\<close>

record response =
  resp_status_code :: int
  resp_content :: string
  resp_headers :: "(string \<times> string) list"
  resp_json :: "(string \<times> int) list option"

text \<open>
  The outcome of one \<open>requests\<close> call: an answer, a \<open>requests.exceptions.RequestException\<close>
  (connection refused, timeout, ...) or any other exception, each with its message.
\<close>

datatype request_result =
    Response response
  | RequestException string
  | OtherException string

section \<open>The monitor (class \<open>OllamaMonitor\<close>)\<close>

record monitor =
  host :: string
  interval :: nat
  running :: bool
  default_model :: "string option"

definition api_endpoint :: "monitor \<Rightarrow> string" where
  "api_endpoint self = host self @ ''/api''"

subsection \<open>\<open>get_server_status\<close>\<close>

definition tags_call :: "monitor \<Rightarrow> upstream_call" where
  "tags_call self =
     \<lparr>uc_method = ''GET'', uc_url = api_endpoint self @ ''/tags'', uc_headers = None,
      uc_params = None, uc_json = None, uc_data = None, uc_timeout = None\<rparr>"


subsection \<open>\<open>get_ollama_process_info\<close>\<close>







subsection \<open>\<open>test_model_generation\<close>\<close>

definition generate_call :: "monitor \<Rightarrow> string \<Rightarrow> upstream_call" where
  "generate_call self name =
     \<lparr>uc_method = ''POST'', uc_url = api_endpoint self @ ''/generate'', uc_headers = None,
      uc_params = None,
      uc_json = Some (JObj [(''model'', JStr name), (''prompt'', JStr ''Hello, world!''),
                            (''stream'', JBool False)]),
      uc_data = None, uc_timeout = None\<rparr>"



subsection \<open>One pass of the loop in \<open>run\<close>\<close>



section \<open>The HTTP handlers\<close>

subsection \<open>\<open>api_request_stats\<close>\<close>

record request_stats =
  total_requests :: nat
  total_input_tokens :: int
  total_output_tokens :: int
  avg_response_time :: real
  most_active_endpoint :: "string option"

text \<open>
  \<open>endpoint_counts\<close> is a dictionary, which keeps its keys in the order of their first
  insertion: an association list. \<open>count_endpoint\<close> is
  \<open>endpoint_counts[endpoint] = endpoint_counts.get(endpoint, 0) + 1\<close>.
\<close>

fun count_endpoint :: "(string \<times> nat) list \<Rightarrow> string \<Rightarrow> (string \<times> nat) list" where
  "count_endpoint [] e = [(e, 1)]"
| "count_endpoint ((k, c) # rest) e =
     (if k = e then (k, c + 1) # rest else (k, c) # count_endpoint rest e)"

text \<open>
  \<open>max(d, key=d.get, default=None)\<close>: the first key, in dictionary order, whose count
  no other exceeds; \<open>None\<close> on the empty dictionary.
\<close>

fun max_key :: "(string \<times> nat) list \<Rightarrow> string option" where
  "max_key [] = None"
| "max_key (kc # rest) =
     Some (fst (fold (\<lambda>kc' best. if snd best < snd kc' then kc' else best) rest kc))"

definition api_request_stats ::
    "(string \<Rightarrow> string option) \<Rightarrow> int \<Rightarrow> database \<Rightarrow> request_stats" where
  "api_request_stats datetime_now hours db0 =
     (let db = create_tables db0;
          logs = map snd (get_recent_requests datetime_now hours db);
          response_times = concat (map (\<lambda>l. case response_time l of None \<Rightarrow> [] | Some t \<Rightarrow> [t]) logs);
          endpoint_counts = fold (\<lambda>l counts. count_endpoint counts (endpoint l)) logs []
      in \<lparr>total_requests = length logs,
          total_input_tokens = sum_list (map input_tokens logs),
          total_output_tokens = sum_list (map output_tokens logs),
          avg_response_time =
            (if response_times \<noteq> [] then sum_list response_times / real (length response_times)
             else 0),
          most_active_endpoint = max_key endpoint_counts\<rparr>)"

subsection \<open>\<open>proxy_ollama\<close>\<close>

text \<open>
  The inbound call as the handler reads it: \<open>request.method\<close>, \<open>request.args\<close>,
  \<open>request.headers\<close>, \<open>request.get_json(silent=True)\<close> (\<open>None\<close> when the body is not
  JSON) and \<open>request.get_data()\<close>.
\<close>

record inbound_request =
  rq_method :: string
  rq_args :: "(string \<times> string) list"
  rq_headers :: "(string \<times> string) list"
  rq_json :: "json option"
  rq_data :: string

text \<open>
  What the handler returns: a body (raw bytes, or a \<open>jsonify\<close> document), a status and,
  when it gives them, the headers.
\<close>

datatype body = Raw string | Jsonify json

record handler_result =
  hr_body :: body
  hr_status :: int
  hr_headers :: "(string \<times> string) list option"

text \<open>
  The dictionary a comprehension \<open>{key: value for (key, value) in items}\<close> builds: a key
  keeps the place of its first occurrence and the value of its last.
\<close>

fun dict_set :: "('k \<times> 'v) list \<Rightarrow> 'k \<Rightarrow> 'v \<Rightarrow> ('k \<times> 'v) list" where
  "dict_set [] k v = [(k, v)]"
| "dict_set ((k', v') # rest) k v =
     (if k' = k then (k', v) # rest else (k', v') # dict_set rest k v)"

definition dict_of_items :: "('k \<times> 'v) list \<Rightarrow> ('k \<times> 'v) list" where
  "dict_of_items items = fold (\<lambda>(k, v) d. dict_set d k v) items []"

definition OLLAMA_HOST :: string where
  "OLLAMA_HOST = ''http://localhost:11434''"

text \<open>
  The \<open>if/elif\<close> chain on \<open>request.method\<close>: the call each branch makes, \<open>None\<close> for the
  final \<open>else\<close>.
\<close>

definition forward_call :: "string \<Rightarrow> inbound_request \<Rightarrow> upstream_call option" where
  "forward_call path req =
     (let url = OLLAMA_HOST @ ''/'' @ path;
          headers = dict_of_items (filter (\<lambda>(key, value). key \<noteq> ''Host'') (rq_headers req))
      in if rq_method req = ''GET'' then
           Some \<lparr>uc_method = ''GET'', uc_url = url, uc_headers = Some headers,
                 uc_params = Some (rq_args req), uc_json = None, uc_data = None,
                 uc_timeout = Some 10\<rparr>
         else if rq_method req = ''POST'' then
           Some \<lparr>uc_method = ''POST'', uc_url = url, uc_headers = Some headers,
                 uc_params = None, uc_json = rq_json req, uc_data = None,
                 uc_timeout = Some 10\<rparr>
         else if rq_method req = ''PUT'' then
           Some \<lparr>uc_method = ''PUT'', uc_url = url, uc_headers = Some headers,
                 uc_params = None, uc_json = None, uc_data = Some (rq_data req),
                 uc_timeout = Some 10\<rparr>
         else if rq_method req = ''DELETE'' then
           Some \<lparr>uc_method = ''DELETE'', uc_url = url, uc_headers = Some headers,
                 uc_params = None, uc_json = None, uc_data = None,
                 uc_timeout = Some 10\<rparr>
         else None)"

text \<open>
  The handler opens the database (\<open>OllamaMetricsDB()\<close> runs \<open>_create_tables\<close>) and then
  never uses it. The result is the returned triple and the database after the call.
\<close>

definition proxy_ollama ::
    "(upstream_call \<Rightarrow> request_result) \<Rightarrow> string \<Rightarrow> inbound_request \<Rightarrow> database
     \<Rightarrow> handler_result \<times> database" where
  "proxy_ollama send path req db0 =
     (let db = create_tables db0 in
      case forward_call path req of
        None \<Rightarrow>
          (\<lparr>hr_body = Jsonify (JObj [(''error'', JStr ''Method not allowed'')]),
            hr_status = 405, hr_headers = None\<rparr>, db)
      | Some call \<Rightarrow>
          (case send call of
             Response resp \<Rightarrow>
               (\<lparr>hr_body = Raw (resp_content resp), hr_status = resp_status_code resp,
                 hr_headers = Some (resp_headers resp)\<rparr>, db)
           | RequestException e \<Rightarrow>
               (\<lparr>hr_body = Jsonify (JObj [(''error'', JStr ''Upstream API request failed''),
                                           (''details'', JStr e)]),
                 hr_status = 502, hr_headers = None\<rparr>, db)
           | OtherException e \<Rightarrow>
               (\<lparr>hr_body = Jsonify (JObj [(''error'', JStr ''Unexpected error occurred''),
                                           (''details'', JStr e)]),
                 hr_status = 500, hr_headers = None\<rparr>, db)))"

section \<open>Concrete data used in the examples\<close>

text \<open>
  A clock at 13:00:00 UTC on 2024-01-01, given on the two modifiers the examples use.
  On any other modifier it yields \<open>NULL\<close>, as SQLite does on a modifier it cannot parse
  (such as \<open>--5 hours\<close>, which a negative window builds).
\<close>

definition example_clock :: "string \<Rightarrow> string option" where
  "example_clock modifier =
     (if modifier = ''-1 hours'' then Some ''2024-01-01 12:00:00''
      else if modifier = ''-24 hours'' then Some ''2023-12-31 13:00:00''
      else None)"

definition example_system :: system_info where
  "example_system =
     \<lparr>cpu_percent = 12, memory_percent = 40, disk_percent = 55,
      network_bytes_sent = 1000, network_bytes_recv = 2000\<rparr>"

definition sample_at :: "string \<Rightarrow> metrics" where
  "sample_at ts =
     \<lparr>timestamp = ts, server_status = True, system = example_system,
      ollama_process = empty_process\<rparr>"




definition example_model :: "string \<Rightarrow> model_entry" where
  "example_model n =
     \<lparr>e_name = Some n, e_size = Some 4661224676,
      e_modified_at = Some ''2024-01-01T09:00:00Z'',
      e_details = Some \<lparr>d_parameter_size = Some ''8B'', d_family = Some ''llama''\<rparr>\<rparr>"


definition ok_upstream :: "upstream_call \<Rightarrow> request_result" where
  "ok_upstream call =
     Response \<lparr>resp_status_code = 200, resp_content = ''{...}'',
               resp_headers = [(''Content-Type'', ''application/json'')],
               resp_json = Some [(''prompt_eval_count'', 4), (''eval_count'', 9)]\<rparr>"



definition refused_upstream :: "upstream_call \<Rightarrow> request_result" where
  "refused_upstream call = RequestException ''Connection refused''"

definition broken_upstream :: "upstream_call \<Rightarrow> request_result" where
  "broken_upstream call = OtherException ''unexpected''"

definition example_get :: inbound_request where
  "example_get =
     \<lparr>rq_method = ''GET'', rq_args = [(''verbose'', ''1'')],
      rq_headers = [(''Host'', ''monitor:8080''), (''Accept'', ''*/*'')],
      rq_json = None, rq_data = []\<rparr>"


definition example_head :: inbound_request where
  "example_head =
     \<lparr>rq_method = ''HEAD'', rq_args = [], rq_headers = [(''Host'', ''monitor:8080'')],
      rq_json = None, rq_data = []\<rparr>"




section \<open>Facts about the relations\<close>

lemma fold_max_ge:
  "(\<forall>x\<in>set (x0 # xs). x \<le> fold max xs x0) \<and> fold max xs x0 \<in> set (x0 # xs)"
  for x0 :: "'a::linorder"
proof -
  have eq: "fold max xs x0 = Max (set (x0 # xs))"
    by (simp only: Max.set_eq_fold)
  have "Max (set (x0 # xs)) \<in> set (x0 # xs)"
    by (rule Max_in) simp_all
  moreover have "\<forall>x\<in>set (x0 # xs). x \<le> Max (set (x0 # xs))"
    by (intro ballI Max_ge) simp_all
  ultimately show ?thesis
    by (simp only: eq) 
qed

lemma sql_max_None: "sql_max xs = None \<longleftrightarrow> xs = []"
  by (cases xs) simp_all

lemma sql_max_Some:
  assumes "sql_max xs = Some t"
  shows "t \<in> set xs" and "\<forall>x\<in>set xs. x \<le> t"
proof -
  obtain y ys where xs: "xs = y # ys" and t: "t = fold max ys y"
    using assms by (cases xs) auto
  show "t \<in> set xs" using fold_max_ge [of y ys] xs t by simp
  show "\<forall>x\<in>set xs. x \<le> t" using fold_max_ge [of y ys] xs t by simp
qed

lemma get_latest_models_eq:
  "get_latest_models db =
     filter (\<lambda>r. \<forall>r'\<in>set (models db). m_timestamp (snd r') \<le> m_timestamp (snd r)) (models db)"
proof (cases "sql_max (map (\<lambda>r. m_timestamp (snd r)) (models db))")
  case None
  then have "models db = []" by (simp add: sql_max_None)
  then show ?thesis by (simp add: get_latest_models_def)
next
  case (Some t)
  note mx = sql_max_Some [OF Some]
  have "filter (\<lambda>r. m_timestamp (snd r) = t) (models db) =
        filter (\<lambda>r. \<forall>r'\<in>set (models db). m_timestamp (snd r') \<le> m_timestamp (snd r)) (models db)"
  proof (rule filter_cong [OF refl])
    fix r assume r: "r \<in> set (models db)"
    show "(m_timestamp (snd r) = t) = (\<forall>r'\<in>set (models db). m_timestamp (snd r') \<le> m_timestamp (snd r))"
    proof
      assume "m_timestamp (snd r) = t"
      then show "\<forall>r'\<in>set (models db). m_timestamp (snd r') \<le> m_timestamp (snd r)"
        using mx(2) by auto
    next
      assume a: "\<forall>r'\<in>set (models db). m_timestamp (snd r') \<le> m_timestamp (snd r)"
      from mx(1) obtain r0 where "r0 \<in> set (models db)" "m_timestamp (snd r0) = t" by auto
      with a have "t \<le> m_timestamp (snd r)" by auto
      moreover have "m_timestamp (snd r) \<le> t" using mx(2) r by auto
      ultimately show "m_timestamp (snd r) = t" by simp
    qed
  qed
  then show ?thesis by (simp add: get_latest_models_def Some)
qed

lemma insert_models_append:
  "\<exists>new. insert_models ts ms rows = rows @ new \<and> map snd new = map (models_values ts) ms"
proof (induction ms arbitrary: rows)
  case Nil
  then show ?case by simp
next
  case (Cons m ms)
  obtain new where new: "insert_models ts ms (rows @ [(next_id rows, models_values ts m)])
      = (rows @ [(next_id rows, models_values ts m)]) @ new" "map snd new = map (models_values ts) ms"
    using Cons.IH by blast
  show ?case
    by (rule exI [of _ "(next_id rows, models_values ts m) # new"]) (simp add: new)
qed

lemma models_values_timestamp: "m_timestamp (models_values ts m) = ts"
  by (simp add: models_values_def Let_def)

lemma latest_after_two_batches:
  assumes old: "\<forall>r\<in>set (models db). m_timestamp (snd r) < t2"
    and lt: "t1 < t2" and ne: "ms2 \<noteq> []"
  shows "get_latest_models (save_models t2 ms2 (save_models t1 ms1 db))
           = drop (length (models db) + length ms1)
               (models (save_models t2 ms2 (save_models t1 ms1 db)))
       \<and> map snd (get_latest_models (save_models t2 ms2 (save_models t1 ms1 db)))
           = map (models_values t2) ms2"
proof -
  obtain new1 where n1: "insert_models t1 ms1 (models db) = models db @ new1"
      "map snd new1 = map (models_values t1) ms1"
    using insert_models_append by blast
  obtain new2 where n2: "insert_models t2 ms2 (models db @ new1) = (models db @ new1) @ new2"
      "map snd new2 = map (models_values t2) ms2"
    using insert_models_append by blast
  let ?db = "save_models t2 ms2 (save_models t1 ms1 db)"
  have rows: "models ?db = models db @ new1 @ new2"
    by (simp add: save_models_def n1 n2)
  have len1: "length new1 = length ms1"
    using n1(2) by (metis length_map)
  have ts1: "\<forall>r\<in>set new1. m_timestamp (snd r) = t1"
  proof
    fix r assume "r \<in> set new1"
    then have "snd r \<in> set (map (models_values t1) ms1)"
      using n1(2) by (metis image_eqI set_map)
    then show "m_timestamp (snd r) = t1"
      by (auto simp: models_values_timestamp)
  qed
  have ts2: "\<forall>r\<in>set new2. m_timestamp (snd r) = t2"
  proof
    fix r assume "r \<in> set new2"
    then have "snd r \<in> set (map (models_values t2) ms2)"
      using n2(2) by (metis image_eqI set_map)
    then show "m_timestamp (snd r) = t2"
      by (auto simp: models_values_timestamp)
  qed
  have ne2: "new2 \<noteq> []"
    using n2(2) ne by auto
  then obtain r2 where r2: "r2 \<in> set new2" by (cases new2) auto
  have top: "\<forall>r'\<in>set (models ?db). m_timestamp (snd r') \<le> t2"
    using old ts1 ts2 lt by (auto simp: rows)
  have f_old: "filter (\<lambda>r. \<forall>r'\<in>set (models ?db). m_timestamp (snd r') \<le> m_timestamp (snd r))
                 (models db) = []"
  proof -
    have "\<not> (\<forall>r'\<in>set (models ?db). m_timestamp (snd r') \<le> m_timestamp (snd r))"
      if "r \<in> set (models db)" for r
    proof
      assume a: "\<forall>r'\<in>set (models ?db). m_timestamp (snd r') \<le> m_timestamp (snd r)"
      have "r2 \<in> set (models ?db)" using r2 by (simp add: rows)
      with a have "m_timestamp (snd r2) \<le> m_timestamp (snd r)" by blast
      moreover have "m_timestamp (snd r2) = t2" using ts2 r2 by blast
      moreover have "m_timestamp (snd r) < t2" using old that by blast
      ultimately show False by simp
    qed
    then show ?thesis by (simp add: filter_empty_conv)
  qed
  have f_1: "filter (\<lambda>r. \<forall>r'\<in>set (models ?db). m_timestamp (snd r') \<le> m_timestamp (snd r))
                 new1 = []"
  proof -
    have "\<not> (\<forall>r'\<in>set (models ?db). m_timestamp (snd r') \<le> m_timestamp (snd r))"
      if "r \<in> set new1" for r
    proof
      assume a: "\<forall>r'\<in>set (models ?db). m_timestamp (snd r') \<le> m_timestamp (snd r)"
      have "r2 \<in> set (models ?db)" using r2 by (simp add: rows)
      with a have "m_timestamp (snd r2) \<le> m_timestamp (snd r)" by blast
      moreover have "m_timestamp (snd r2) = t2" using ts2 r2 by blast
      moreover have "m_timestamp (snd r) = t1" using ts1 that by blast
      ultimately show False using lt by simp
    qed
    then show ?thesis by (simp add: filter_empty_conv)
  qed
  have f_2: "filter (\<lambda>r. \<forall>r'\<in>set (models ?db). m_timestamp (snd r') \<le> m_timestamp (snd r))
                 new2 = new2"
  proof -
    have "\<forall>r'\<in>set (models ?db). m_timestamp (snd r') \<le> m_timestamp (snd r)"
      if "r \<in> set new2" for r
      using top ts2 that by simp
    then show ?thesis by (simp add: filter_id_conv)
  qed
  have res: "get_latest_models ?db = new2"
    unfolding get_latest_models_eq [of ?db]
    using f_old f_1 f_2 by (simp add: rows)
  show ?thesis
    by (simp add: res rows len1 n2(2))
qed






lemma forward_call_None:
  "forward_call path req = None \<longleftrightarrow> rq_method req \<notin> {''GET'', ''POST'', ''PUT'', ''DELETE''}"
  by (auto simp: forward_call_def Let_def split: if_splits)

lemma forward_call_timeout:
  "forward_call path req = Some call \<Longrightarrow> uc_timeout call = Some 10"
  by (auto simp: forward_call_def Let_def split: if_splits)



lemma hours_modifier_1: "hours_modifier 1 = ''-1 hours''"
  by (simp add: hours_modifier_def str_int_def)



section \<open>The proxy route\<close>

text \<open>
  Claim C6. Whatever the inbound call and whatever the upstream does (an answer, a
  transport failure, another exception, or an unsupported method), \<open>proxy_ollama\<close>
  leaves the database as it found it; in particular the \<open>request_logs\<close> relation gets
  no row from the forwarding path.
\<close>

theorem proxy_leaves_database_unchanged:
  "snd (proxy_ollama send path req db) = db
   \<and> request_logs (snd (proxy_ollama send path req db)) = request_logs db"
  by (simp add: proxy_ollama_def create_tables_def Let_def
           split: option.split request_result.split)

section \<open>Timeouts of the upstream calls\<close>

text \<open>
  Claim C4 asks for an explicit timeout on the liveness probe, the generation test and
  every forwarded call. It does not hold of the code: the call \<open>get_server_status\<close>
  makes and the call \<open>test_model_generation\<close> makes carry no timeout at all, so
  \<open>requests\<close> may wait for the upstream without limit. Only the forwarded calls carry
  one (\<open>forward_call_timeout\<close>).
\<close>

theorem monitor_calls_without_timeout:
  "uc_timeout (tags_call self) = None \<and> uc_timeout (generate_call self name) = None"
  by (simp add: tags_call_def generate_call_def)

section \<open>The window queries\<close>




text \<open>
  The comparison is one of text. A row stamped by \<open>datetime.now().isoformat()\<close> has
  \<open>T\<close> between date and time where SQLite's cutoff has a space, so a row of the
  cutoff's calendar day is above the cutoff whatever its time of day: the row written at
  00:00 is returned by the one-hour window that starts at 12:00.
\<close>

lemma iso_timestamp_same_day_returned:
  "get_recent_system_metrics example_clock 1
     (save_system_metrics (sample_at ''2024-01-01T00:00:00.000000'') empty_db)
   = [(1, system_metrics_values (sample_at ''2024-01-01T00:00:00.000000''))]"
  by (simp add: example_clock_def hours_modifier_def str_int_def
        save_system_metrics_def empty_db_def next_id_def system_metrics_values_def
        sample_at_def get_recent_system_metrics_def)

section \<open>Round trip of the system metrics\<close>



section \<open>The latest model snapshot\<close>

text \<open>
  Claim C8, as amended. \<open>get_latest_models\<close> returns exactly the \<open>models\<close> rows whose
  timestamp is the greatest one present in the relation (no row of an empty relation).
  After two batches written at \<open>t1 < t2\<close> onto a relation whose rows are all older than
  \<open>t2\<close>, the second batch not empty, it returns exactly the rows the second batch
  inserted, with the values of that batch, and no row of the first. A batch with no
  entry writes no row, so after it the result is what it was before.
\<close>

theorem latest_models_snapshot:
  "get_latest_models db
     = filter (\<lambda>r. \<forall>r'\<in>set (models db). m_timestamp (snd r') \<le> m_timestamp (snd r)) (models db)
   \<and> ((\<forall>r\<in>set (models db). m_timestamp (snd r) < t2) \<and> t1 < t2 \<and> ms2 \<noteq> [] \<longrightarrow>
        get_latest_models (save_models t2 ms2 (save_models t1 ms1 db))
          = drop (length (models db) + length ms1)
              (models (save_models t2 ms2 (save_models t1 ms1 db)))
        \<and> map snd (get_latest_models (save_models t2 ms2 (save_models t1 ms1 db)))
          = map (models_values t2) ms2)
   \<and> get_latest_models (save_models t2 [] db) = get_latest_models db"
proof -
  have greatest: "get_latest_models db
     = filter (\<lambda>r. \<forall>r'\<in>set (models db). m_timestamp (snd r') \<le> m_timestamp (snd r)) (models db)"
    by (rule get_latest_models_eq)
  have second: "get_latest_models (save_models t2 ms2 (save_models t1 ms1 db))
          = drop (length (models db) + length ms1)
              (models (save_models t2 ms2 (save_models t1 ms1 db)))
        \<and> map snd (get_latest_models (save_models t2 ms2 (save_models t1 ms1 db)))
          = map (models_values t2) ms2"
    if "(\<forall>r\<in>set (models db). m_timestamp (snd r) < t2) \<and> t1 < t2 \<and> ms2 \<noteq> []"
    using that latest_after_two_batches [of db t2 t1 ms2 ms1] by blast
  have "save_models t2 [] db = db"
    by (simp add: save_models_def)
  then have none: "get_latest_models (save_models t2 [] db) = get_latest_models db"
    by simp
  from greatest second none show ?thesis by blast
qed

text \<open>
  The theorem at two one-model batches written into the empty database, an hour apart.
\<close>

theorem latest_models_snapshot_witness:
  "models empty_db = []
   \<and> ''2024-01-01T10:00:00'' < ''2024-01-01T11:00:00''
   \<and> [example_model ''mistral''] \<noteq> []
   \<and> map snd (get_latest_models
        (save_models ''2024-01-01T11:00:00'' [example_model ''mistral'']
           (save_models ''2024-01-01T10:00:00'' [example_model ''llama3''] empty_db)))
       = map (models_values ''2024-01-01T11:00:00'') [example_model ''mistral'']
   \<and> get_latest_models empty_db = []"
proof -
  have h1: "\<forall>r\<in>set (models empty_db). m_timestamp (snd r) < ''2024-01-01T11:00:00''"
    by (simp add: empty_db_def)
  have h2: "''2024-01-01T10:00:00'' < ''2024-01-01T11:00:00''"
    by simp
  have h3: "[example_model ''mistral''] \<noteq> []"
    by simp
  note snapshot =
    latest_models_snapshot [of empty_db "''2024-01-01T11:00:00''" "''2024-01-01T10:00:00''"
      "[example_model ''mistral'']" "[example_model ''llama3'']"]
  have two: "map snd (get_latest_models
        (save_models ''2024-01-01T11:00:00'' [example_model ''mistral'']
           (save_models ''2024-01-01T10:00:00'' [example_model ''llama3''] empty_db)))
       = map (models_values ''2024-01-01T11:00:00'') [example_model ''mistral'']"
    using snapshot h1 h2 h3 by blast
  have "get_latest_models empty_db
     = filter (\<lambda>r. \<forall>r'\<in>set (models empty_db). m_timestamp (snd r') \<le> m_timestamp (snd r))
         (models empty_db)"
    using snapshot by blast
  then have none: "get_latest_models empty_db = []"
    by (simp add: empty_db_def)
  have h0: "models empty_db = []"
    by (simp add: empty_db_def)
  from h0 h2 h3 two none show ?thesis by blast
qed

text \<open>
  Claim C8 as stated fails when the second batch is empty: nothing is written at the
  later time, and the result is the row of the first batch, not the (empty) set of rows
  of the second.
\<close>

theorem empty_second_batch_keeps_first:
  "''2024-01-01T10:00:00'' < ''2024-01-01T11:00:00''
   \<and> get_latest_models
        (save_models ''2024-01-01T11:00:00'' []
           (save_models ''2024-01-01T10:00:00'' [example_model ''llama3''] empty_db))
       = [(1, models_values ''2024-01-01T10:00:00'' (example_model ''llama3''))]"
  by (simp add: get_latest_models_def save_models_def empty_db_def next_id_def
        models_values_timestamp)

section \<open>Aggregate request statistics\<close>

text \<open>
  Claim C10. When the windowed request-log query returns no row, \<open>api_request_stats\<close>
  returns zero requests, zero input and output tokens, the number 0 as average
  response time, and no most active endpoint.
\<close>

theorem request_stats_empty_window:
  assumes "get_recent_requests datetime_now hours db = []"
  shows "api_request_stats datetime_now hours db
           = \<lparr>total_requests = 0, total_input_tokens = 0, total_output_tokens = 0,
              avg_response_time = 0, most_active_endpoint = None\<rparr>"
  using assms by (simp add: api_request_stats_def create_tables_def)

text \<open>The theorem at the empty database, and at a database whose rows are all too old.\<close>

theorem request_stats_empty_window_witness:
  "get_recent_requests example_clock 1 empty_db = []
   \<and> api_request_stats example_clock 1 empty_db
       = \<lparr>total_requests = 0, total_input_tokens = 0, total_output_tokens = 0,
          avg_response_time = 0, most_active_endpoint = None\<rparr>"
proof -
  have h: "get_recent_requests example_clock 1 empty_db = []"
    by (simp add: get_recent_requests_def hours_modifier_1 example_clock_def empty_db_def)
  show ?thesis
    using h request_stats_empty_window [OF h] by simp
qed

section \<open>Forwarding through the proxy route\<close>




text \<open>
  Claim C7. For a forwarded call, a \<open>RequestException\<close> from the upstream call yields
  status 502 with the exception's message under \<open>details\<close>, and so never 200; any other
  exception yields status 500; a method other than the four the handler forwards
  yields status 405.
\<close>

theorem proxy_error_statuses:
  "(forward_call path req = Some call \<and> send call = RequestException e \<longrightarrow>
      fst (proxy_ollama send path req db)
        = \<lparr>hr_body = Jsonify (JObj [(''error'', JStr ''Upstream API request failed''),
                                    (''details'', JStr e)]),
           hr_status = 502, hr_headers = None\<rparr>
      \<and> hr_status (fst (proxy_ollama send path req db)) \<noteq> 200)
   \<and> (forward_call path req = Some call \<and> send call = OtherException e \<longrightarrow>
        hr_status (fst (proxy_ollama send path req db)) = 500)
   \<and> (rq_method req \<notin> {''GET'', ''POST'', ''PUT'', ''DELETE''} \<longrightarrow>
        hr_status (fst (proxy_ollama send path req db)) = 405
        \<and> 400 \<le> hr_status (fst (proxy_ollama send path req db))
        \<and> hr_status (fst (proxy_ollama send path req db)) < 500)"
proof -
  have bad_gateway: "fst (proxy_ollama send path req db)
        = \<lparr>hr_body = Jsonify (JObj [(''error'', JStr ''Upstream API request failed''),
                                    (''details'', JStr e)]),
           hr_status = 502, hr_headers = None\<rparr>
      \<and> hr_status (fst (proxy_ollama send path req db)) \<noteq> 200"
    if "forward_call path req = Some call \<and> send call = RequestException e"
    using that by (simp add: proxy_ollama_def Let_def)
  have server_error: "hr_status (fst (proxy_ollama send path req db)) = 500"
    if "forward_call path req = Some call \<and> send call = OtherException e"
    using that by (simp add: proxy_ollama_def Let_def)
  have not_allowed: "hr_status (fst (proxy_ollama send path req db)) = 405
        \<and> 400 \<le> hr_status (fst (proxy_ollama send path req db))
        \<and> hr_status (fst (proxy_ollama send path req db)) < 500"
    if "rq_method req \<notin> {''GET'', ''POST'', ''PUT'', ''DELETE''}"
  proof -
    from that have "forward_call path req = None" by (simp add: forward_call_None)
    then show ?thesis by (simp add: proxy_ollama_def Let_def)
  qed
  from bad_gateway server_error not_allowed show ?thesis by blast
qed

text \<open>
  The theorem at a \<open>GET\<close> whose upstream refuses the connection, at a \<open>GET\<close> whose upstream
  call raises another exception, and at a \<open>HEAD\<close>, which Flask routes to the handler
  together with \<open>GET\<close>.
\<close>

theorem proxy_error_statuses_witness:
  "(\<exists>call. forward_call ''api/tags'' example_get = Some call
       \<and> refused_upstream call = RequestException ''Connection refused''
       \<and> broken_upstream call = OtherException ''unexpected'')
   \<and> rq_method example_head \<notin> {''GET'', ''POST'', ''PUT'', ''DELETE''}
   \<and> fst (proxy_ollama refused_upstream ''api/tags'' example_get empty_db)
        = \<lparr>hr_body = Jsonify (JObj [(''error'', JStr ''Upstream API request failed''),
                                    (''details'', JStr ''Connection refused'')]),
           hr_status = 502, hr_headers = None\<rparr>
   \<and> hr_status (fst (proxy_ollama broken_upstream ''api/tags'' example_get empty_db)) = 500
   \<and> hr_status (fst (proxy_ollama ok_upstream ''api/tags'' example_head empty_db)) = 405"
proof -
  obtain call where call: "forward_call ''api/tags'' example_get = Some call"
    by (simp add: forward_call_def example_get_def)
  have r: "refused_upstream call = RequestException ''Connection refused''"
    by (simp add: refused_upstream_def)
  have b: "broken_upstream call = OtherException ''unexpected''"
    by (simp add: broken_upstream_def)
  have h: "rq_method example_head \<notin> {''GET'', ''POST'', ''PUT'', ''DELETE''}"
    by (simp add: example_head_def)
  have c1: "fst (proxy_ollama refused_upstream ''api/tags'' example_get empty_db)
        = \<lparr>hr_body = Jsonify (JObj [(''error'', JStr ''Upstream API request failed''),
                                    (''details'', JStr ''Connection refused'')]),
           hr_status = 502, hr_headers = None\<rparr>"
    using call r
      proxy_error_statuses [of "''api/tags''" example_get call refused_upstream
        "''Connection refused''" empty_db]
    by blast
  have c2: "hr_status (fst (proxy_ollama broken_upstream ''api/tags'' example_get empty_db)) = 500"
    using call b
      proxy_error_statuses [of "''api/tags''" example_get call broken_upstream
        "''unexpected''" empty_db]
    by blast
  have c3: "hr_status (fst (proxy_ollama ok_upstream ''api/tags'' example_head empty_db)) = 405"
    using h
      proxy_error_statuses [of "''api/tags''" example_head call ok_upstream
        "''unexpected''" empty_db]
    by blast
  from call r b h c1 c2 c3 show ?thesis by blast
qed

section \<open>The generation test\<close>




section \<open>One pass of the sampler\<close>



end
